theory Spec2Isabelle
  imports Complex_Main "HOL-Library.Word"
begin

section \<open>Strings, errors and numbers of the program\<close>

text \<open>
  The program is one TypeScript module, \<^verbatim>\<open>src/index.ts\<close>. Its strings are JavaScript
  strings: sequences of 16-bit UTF-16 code units, which is what \<^verbatim>\<open>indexOf\<close>,
  \<^verbatim>\<open>split\<close>, \<^verbatim>\<open>===\<close> and \<^verbatim>\<open>parseInt\<close> work on. An ASCII literal of the source is
  written \<open>str ''...''\<close>; the non-ASCII literals are given by their code units.
\<close>

type_synonym jsstring = "16 word list"

definition str :: "string \<Rightarrow> jsstring" where
  "str s = map of_char s"

text \<open>
  A thrown value is a JavaScript \<^verbatim>\<open>Error\<close>; the program only ever reads its
  \<^verbatim>\<open>message\<close>.
\<close>

datatype error = Error (message: jsstring)

text \<open>
  Instants are time values: milliseconds since the epoch, as \<^verbatim>\<open>Date.now()\<close> and
  \<^verbatim>\<open>getTime()\<close> return them. They are integers, modelled as \<open>int\<close>, and the one
  division of the program is modelled on the rationals. (Inside the range of a
  JavaScript \<^verbatim>\<open>Date\<close> the double-precision quotient rounds to the same integer as the
  exact one: a difference of two time values is exact, and a quotient that is not a tie
  is at least \<open>1 / DAY\<close> away from every half-integer, more than half a unit in the last
  place below \<open>2 ^ 27\<close> days.) An invalid date (\<^verbatim>\<open>NaN\<close>) as the certificate's
  \<^verbatim>\<open>valid_to\<close> is outside the model. The constant \<^verbatim>\<open>MIN\<close> of the source is
  \<open>MIN_ms\<close> here.
\<close>

definition MIN_ms :: int where
  "MIN_ms = 60 * 1000"

definition HOUR :: int where
  "HOUR = MIN_ms * 60"

definition DAY :: int where
  "DAY = HOUR * 24"

text \<open>
  \<^verbatim>\<open>Math.round\<close> of ECMAScript: the integer closest to the argument, and of two
  equally close integers the one closer to plus infinity.
\<close>

definition Math_round :: "rat \<Rightarrow> int" where
  "Math_round x = \<lfloor>x + 1 / 2\<rfloor>"

section \<open>Host strings: the head of \<^verbatim>\<open>tslConnect\<close>\<close>

text \<open>
  \<^verbatim>\<open>String.prototype.split\<close> with a one-unit separator: the pieces between the
  occurrences of the separator, so \<open>n\<close> occurrences give \<open>n + 1\<close> pieces. (A
  split has at least one piece, so the empty case below is never taken.)
\<close>

fun split :: "16 word \<Rightarrow> jsstring \<Rightarrow> jsstring list" where
  "split sep [] = [[]]"
| "split sep (c # cs) =
     (if c = sep then [] # split sep cs
      else (case split sep cs of
              [] \<Rightarrow> [[c]]
            | piece # pieces \<Rightarrow> (c # piece) # pieces))"

text \<open>
  \<^verbatim>\<open>parseInt(string)\<close> of ECMAScript, called without a radix: leading white space
  is dropped, then one sign, then a \<^verbatim>\<open>0x\<close> or \<^verbatim>\<open>0X\<close> prefix (which selects radix 16,
  otherwise the radix is 10); the longest run of digits of the radix is the numeral,
  whatever follows it is ignored, and an empty run gives \<^verbatim>\<open>NaN\<close>, here \<open>None\<close>.
  The result is a JavaScript number, a double: the numeral's value rounded to 53
  significant bits, ties to even, and an infinity from \<open>2 ^ 1024\<close> on. Only integers and
  the infinities arise, so a number is modelled by its integer value or its infinity (the
  two zeros are not told apart). For a decimal numeral of more than 20 significant
  digits the standard lets an implementation round less exactly; the model rounds the
  exact value.
\<close>

datatype number = Finite int | PlusInfinity | MinusInfinity

fun bit_length :: "nat \<Rightarrow> nat" where
  "bit_length n = (if n = 0 then 0 else Suc (bit_length (n div 2)))"

definition roundToDouble :: "nat \<Rightarrow> nat option" where
  "roundToDouble m =
     (let e = bit_length m - 53;
          q = m div 2 ^ e;
          r = m mod 2 ^ e;
          q' = (if 2 ^ e < 2 * r \<or> (2 * r = 2 ^ e \<and> odd q) then q + 1 else q)
      in if 2 ^ 1024 \<le> q' * 2 ^ e then None else Some (q' * 2 ^ e))"

definition toNumber :: "int \<Rightarrow> nat \<Rightarrow> number" where
  "toNumber sign mathInt =
     (case roundToDouble mathInt of
        None \<Rightarrow> if sign < 0 then MinusInfinity else PlusInfinity
      | Some v \<Rightarrow> Finite (sign * int v))"

definition isWhiteSpace :: "16 word \<Rightarrow> bool" where
  "isWhiteSpace c \<longleftrightarrow>
     c \<in> {0x9, 0xA, 0xB, 0xC, 0xD, 0x20, 0xA0, 0x1680, 0x2028, 0x2029, 0x202F,
          0x205F, 0x3000, 0xFEFF}
     \<or> (0x2000 \<le> c \<and> c \<le> 0x200A)"

definition digitValue :: "16 word \<Rightarrow> nat option" where
  "digitValue c =
     (if 0x30 \<le> c \<and> c \<le> 0x39 then Some (unat c - 0x30)
      else if 0x61 \<le> c \<and> c \<le> 0x7A then Some (unat c - 0x61 + 10)
      else if 0x41 \<le> c \<and> c \<le> 0x5A then Some (unat c - 0x41 + 10)
      else None)"

definition radixDigit :: "nat \<Rightarrow> 16 word \<Rightarrow> nat option" where
  "radixDigit R c =
     (case digitValue c of
        None \<Rightarrow> None
      | Some d \<Rightarrow> if d < R then Some d else None)"

definition radixValue :: "nat \<Rightarrow> jsstring \<Rightarrow> nat" where
  "radixValue R Z = foldl (\<lambda>n c. n * R + the (radixDigit R c)) 0 Z"

fun stripSign :: "jsstring \<Rightarrow> int \<times> jsstring" where
  "stripSign [] = (1, [])"
| "stripSign (c # S) =
     (if c = 0x2D then (- 1, S) else if c = 0x2B then (1, S) else (1, c # S))"

fun stripPrefix :: "jsstring \<Rightarrow> nat \<times> jsstring" where
  "stripPrefix (a # b # S) =
     (if a = 0x30 \<and> (b = 0x78 \<or> b = 0x58) then (16, S) else (10, a # b # S))"
| "stripPrefix S = (10, S)"

definition parseInt :: "jsstring \<Rightarrow> number option" where
  "parseInt inputString =
     (case stripSign (dropWhile isWhiteSpace inputString) of
        (sign, S) \<Rightarrow>
          (case stripPrefix S of
             (R, S) \<Rightarrow>
               (let Z = takeWhile (\<lambda>c. radixDigit R c \<noteq> None) S
                in if Z = [] then None else Some (toNumber sign (radixValue R Z)))))"

text \<open>
  Lines 11 to 22 of \<^verbatim>\<open>tslConnect\<close>: the host name and the port the connection is
  opened to, or the thrown error. The second \<^verbatim>\<open>throw\<close> comes after \<^verbatim>\<open>host\<close> has been
  reassigned, so its message carries the host name only.
\<close>

definition tslConnect_target :: "jsstring \<Rightarrow> error + jsstring \<times> number" where
  "tslConnect_target host =
     (if 0x3A \<in> set host then
        (case split 0x3A host of
           [host', portString] \<Rightarrow>
             (case parseInt portString of
                None \<Rightarrow> Inl (Error (str ''invalid host: '' @ host'))
              | Some port \<Rightarrow> Inr (host', port))
         | _ \<Rightarrow> Inl (Error (str ''invalid host: '' @ host)))
      else Inr (host, Finite 443))"

section \<open>The probe\<close>

text \<open>
  The network is a parameter: what \<^verbatim>\<open>tls.connect\<close> does for a host name and a port,
  an \<^verbatim>\<open>error\<close> event or a connected socket. Of the socket the program reads the
  peer certificate's \<^verbatim>\<open>valid_to\<close>, through \<^verbatim>\<open>new Date(...).getTime()\<close>.
\<close>

record TLSSocket =
  valid_to :: int

type_synonym network = "jsstring \<Rightarrow> number \<Rightarrow> error + TLSSocket"

definition tslConnect :: "network \<Rightarrow> jsstring \<Rightarrow> error + TLSSocket" where
  "tslConnect net host =
     (case tslConnect_target host of
        Inl e \<Rightarrow> Inl e
      | Inr (host', port) \<Rightarrow> net host' port)"

definition getExpireTime :: "network \<Rightarrow> jsstring \<Rightarrow> error + int" where
  "getExpireTime net host =
     (case tslConnect net host of
        Inr sock \<Rightarrow> Inr (valid_to sock)
      | Inl e \<Rightarrow>
          if message e = str ''certificate has expired'' then Inr 0
          else Inl e)"

section \<open>The report\<close>

fun convertToHTMLList_loop :: "jsstring \<Rightarrow> (jsstring \<times> jsstring) list \<Rightarrow> jsstring" where
  "convertToHTMLList_loop htmlString [] = htmlString"
| "convertToHTMLList_loop htmlString (item # list) =
     convertToHTMLList_loop
       (htmlString @ str ''<li><strong>'' @ fst item @ str ''</strong>: '' @ snd item
          @ str ''</li>'')
       list"

definition convertToHTMLList :: "(jsstring \<times> jsstring) list \<Rightarrow> jsstring" where
  "convertToHTMLList list = convertToHTMLList_loop (str ''<ul>'') list @ str ''</ul>''"

text \<open>
  \<^verbatim>\<open>Promise.all\<close> over the probes: the results in the order of the hosts, or a
  rejection as soon as one probe rejects. Which rejection wins in the program is a
  matter of timing; the model takes the first in the order of the list.
\<close>

fun Promise_all :: "(error + 'a) list \<Rightarrow> error + 'a list" where
  "Promise_all [] = Inr []"
| "Promise_all (p # ps) =
     (case p of
        Inl e \<Rightarrow> Inl e
      | Inr v \<Rightarrow> (case Promise_all ps of Inl e \<Rightarrow> Inl e | Inr vs \<Rightarrow> Inr (v # vs)))"

definition probe :: "network \<Rightarrow> jsstring \<Rightarrow> error + jsstring \<times> int" where
  "probe net host =
     (case getExpireTime net host of Inl e \<Rightarrow> Inl e | Inr expireAt \<Rightarrow> Inr (host, expireAt))"

definition probeAll :: "network \<Rightarrow> jsstring list \<Rightarrow> error + (jsstring \<times> int) list" where
  "probeAll net hosts = Promise_all (map (probe net) hosts)"

text \<open>
  The two literals pushed by the loop: the red span around the four units of the
  "already expired" marker, and the two-unit suffix appended to the relative-time phrase.
\<close>

definition expired_text :: jsstring where
  "expired_text =
     str ''<span style=\"color: red;\">'' @ [0x5DF2, 0x8FC7, 0x671F, 0xFF01] @ str ''</span>''"

definition expire_suffix :: jsstring where
  "expire_suffix = [0x8FC7, 0x671F]"

definition daysUntilExpiry :: "int \<Rightarrow> int \<Rightarrow> int" where
  "daysUntilExpiry expireAt now = Math_round (rat_of_int (expireAt - now) / rat_of_int DAY)"

text \<open>
  The body of the \<^verbatim>\<open>for\<close> loop of \<^verbatim>\<open>checkAll\<close>, on the two variables it updates.
  \<^verbatim>\<open>moment(expireAt).fromNow()\<close> is a parameter, \<open>fromNow\<close>: the relative-time phrase
  the formatter gives for the instant. The formatter measures from its own reading of the
  clock, taken when the loop runs: later than \<open>now\<close>, which is read before the probes
  are awaited. So \<open>fromNow\<close> stands for the formatter at that later reading.
\<close>

type_synonym report = "(jsstring \<times> jsstring) list \<times> bool"

fun check_item :: "(int \<Rightarrow> jsstring) \<Rightarrow> int \<Rightarrow> report \<Rightarrow> jsstring \<times> int \<Rightarrow> report" where
  "check_item fromNow now (content, needNotify) (host, expireAt) =
     (let diff = daysUntilExpiry expireAt now
      in (if diff < 0 then content @ [(host, expired_text)]
          else if diff < 30 then content @ [(host, fromNow expireAt @ expire_suffix)]
          else content,
          needNotify \<or> diff \<le> 14))"

text \<open>
  Lines 110 to 122: the stable sort by expiry (the comparator is the difference of the
  two time values) and the loop over the sorted items.
\<close>

definition check_items :: "(int \<Rightarrow> jsstring) \<Rightarrow> int \<Rightarrow> (jsstring \<times> int) list \<Rightarrow> report" where
  "check_items fromNow now items = foldl (check_item fromNow now) ([], False) (sort_key snd items)"

text \<open>The decimal digits of an array length, as a template literal renders it.\<close>

fun decimal :: "nat \<Rightarrow> jsstring" where
  "decimal n =
     (if n < 10 then [of_nat (0x30 + n)]
      else decimal (n div 10) @ [of_nat (0x30 + n mod 10)])"

definition subject :: "nat \<Rightarrow> jsstring" where
  "subject n =
     str ''['' @ decimal n @ [0xD83D, 0xDEA8] @ str ''] SSL ''
       @ [0x8BC1, 0x4E66, 0x5230, 0x671F, 0x68C0, 0x6D4B]"

text \<open>
  \<^verbatim>\<open>checkAll\<close>. What a run does to the world is the list of mails it hands to
  \<^verbatim>\<open>sendMailToMe\<close> (subject and HTML body); the mail transport is a parameter that
  answers with a message id or an error. The console lines are not modelled.
\<close>

type_synonym mailer = "jsstring \<Rightarrow> jsstring \<Rightarrow> error + jsstring"

record run =
  mails :: "(jsstring \<times> jsstring) list"
  outcome :: "error + unit"

definition sendMailToMe :: "mailer \<Rightarrow> jsstring \<Rightarrow> jsstring \<Rightarrow> run" where
  "sendMailToMe mailer subj content_html =
     \<lparr>mails = [(subj, content_html)],
      outcome = (case mailer subj content_html of Inl e \<Rightarrow> Inl e | Inr info \<Rightarrow> Inr ())\<rparr>"

definition checkAll ::
  "network \<Rightarrow> (int \<Rightarrow> jsstring) \<Rightarrow> mailer \<Rightarrow> jsstring list \<Rightarrow> int \<Rightarrow> run" where
  "checkAll net fromNow mailer hosts now =
     (case probeAll net hosts of
        Inl e \<Rightarrow> \<lparr>mails = [], outcome = Inl e\<rparr>
      | Inr items \<Rightarrow>
          (let (content, needNotify) = check_items fromNow now items in
           if needNotify then
             sendMailToMe mailer (subject (length content)) (convertToHTMLList content)
           else \<lparr>mails = [], outcome = Inr ()\<rparr>))"

section \<open>The scheduler\<close>

text \<open>
  \<^verbatim>\<open>main\<close> reads \<^verbatim>\<open>process.env['RUN']\<close> (a string, or undefined) once and either
  starts one run or hands a cron pattern and a time zone to the scheduler library.
\<close>

datatype schedule = RunNow | CronJob (cronTime: jsstring) (timeZone: jsstring)

definition main :: "jsstring option \<Rightarrow> schedule" where
  "main RUN =
     (if RUN = Some (str ''1'') then RunNow
      else CronJob (str ''0 10 * * *'') (str ''Asia/Shanghai''))"

section \<open>Derived notions\<close>

text \<open>
  Two abbreviations for what the loop of \<^verbatim>\<open>checkAll\<close> does to one item: whether the
  item gets an entry in \<^verbatim>\<open>content\<close>, and the entry it gets. They are used to state
  the loop's result in closed form (\<open>check_items_eq\<close> below), not to define it.
\<close>

definition reportable :: "int \<Rightarrow> jsstring \<times> int \<Rightarrow> bool" where
  "reportable now item \<longleftrightarrow> daysUntilExpiry (snd item) now < 30"

definition entry :: "(int \<Rightarrow> jsstring) \<Rightarrow> int \<Rightarrow> jsstring \<times> int \<Rightarrow> jsstring \<times> jsstring" where
  "entry fromNow now item =
     (fst item,
      if daysUntilExpiry (snd item) now < 0 then expired_text
      else fromNow (snd item) @ expire_suffix)"

text \<open>
  The two rounding modes the specification names for half-day ties, and its "base-10
  integer" (an optional sign and one or more decimal digits). These follow the
  specification's words; the program is compared with them below.
\<close>

definition round_ties_away :: "rat \<Rightarrow> int" where
  "round_ties_away x = (if 0 \<le> x then \<lfloor>x + 1 / 2\<rfloor> else \<lceil>x - 1 / 2\<rceil>)"

definition round_ties_even :: "rat \<Rightarrow> int" where
  "round_ties_even x =
     (let f = \<lfloor>x\<rfloor>; r = x - of_int f in
      if r < 1 / 2 then f else if 1 / 2 < r then f + 1 else if even f then f else f + 1)"

definition is_base10_integer :: "jsstring \<Rightarrow> bool" where
  "is_base10_integer s \<longleftrightarrow>
     (case snd (stripSign s) of
        [] \<Rightarrow> False
      | ds \<Rightarrow> list_all (\<lambda>c. 0x30 \<le> c \<and> c \<le> 0x39) ds)"

text \<open>
  Sample surroundings for the concrete runs below: a network on which every handshake
  fails because the certificate has expired, one on which \<^verbatim>\<open>down.example\<close> refuses the
  connection and every other host presents a certificate valid until the epoch, a
  formatter with one phrase, and a transport that accepts every mail.
\<close>

definition net_expired :: network where
  "net_expired host port = Inl (Error (str ''certificate has expired''))"

definition net_one_down :: network where
  "net_one_down host port =
     (if host = str ''down.example'' then Inl (Error (str ''connect ECONNREFUSED''))
      else Inr \<lparr>valid_to = 0\<rparr>)"

definition fromNow_sample :: "int \<Rightarrow> jsstring" where
  "fromNow_sample t = str ''in 5 days''"

text \<open>
  A formatter that depends on the clock reading it is given: it counts the days from
  that reading to the instant, rounded as \<^verbatim>\<open>Math.round\<close> rounds, the way the library
  counts days.
\<close>

definition fromNow_at :: "int \<Rightarrow> int \<Rightarrow> jsstring" where
  "fromNow_at clock t = str ''in '' @ decimal (nat (daysUntilExpiry t clock)) @ str '' days''"

definition mailer_sample :: mailer where
  "mailer_sample subj html = Inr (str ''<1@mail.example>'')"

section \<open>Auxiliary facts\<close>

declare decimal.simps [simp del]

lemma str_simps: "str [] = []" "str (c # cs) = of_char c # str cs"
  by (simp_all add: str_def)

lemmas eval_parse = tslConnect_target_def parseInt_def isWhiteSpace_def radixDigit_def
  digitValue_def radixValue_def toNumber_def

declare bit_length.simps [simp del]

subsection \<open>Days\<close>

lemma DAY_eq: "DAY = 86400000"
  by (simp add: DAY_def HOUR_def MIN_ms_def)

lemma daysUntilExpiry_div:
  "daysUntilExpiry expireAt now = (2 * (expireAt - now) + 86400000) div 172800000"
proof -
  have "rat_of_int (expireAt - now) / rat_of_int 86400000 + 1 / 2
      = rat_of_int (2 * (expireAt - now) + 86400000) / rat_of_int 172800000"
    by (simp add: field_simps)
  then show ?thesis
    by (simp only: daysUntilExpiry_def Math_round_def DAY_eq floor_divide_of_int_eq)
qed

lemma days_offset: "daysUntilExpiry (now + k * DAY) now = k"
  unfolding daysUntilExpiry_div DAY_eq by simp

lemma days_less_iff: "daysUntilExpiry e now < k \<longleftrightarrow> 2 * (e - now) < (2 * k - 1) * DAY"
proof -
  have "rat_of_int (e - now) / rat_of_int DAY + 1 / 2 < rat_of_int k
      \<longleftrightarrow> rat_of_int (2 * (e - now)) < rat_of_int ((2 * k - 1) * DAY)"
    by (auto simp: DAY_eq field_simps)
  then show ?thesis
    by (simp only: daysUntilExpiry_def Math_round_def floor_less_iff of_int_less_iff)
qed

lemma days_neg_iff: "daysUntilExpiry e now < 0 \<longleftrightarrow> e - now < - 43200000"
  by (auto simp: days_less_iff DAY_eq)

lemma days_le_14_iff: "daysUntilExpiry e now \<le> 14 \<longleftrightarrow> e - now < 1252800000"
  using days_less_iff [of e now 15] by (auto simp: DAY_eq)

subsection \<open>The loop in closed form\<close>

lemma foldl_check_item:
  "foldl (check_item fromNow now) (content, needNotify) items =
     (content @ map (entry fromNow now) (filter (reportable now) items),
      needNotify \<or> (\<exists>item \<in> set items. daysUntilExpiry (snd item) now \<le> 14))"
proof (induction items arbitrary: content needNotify)
  case Nil
  show ?case by simp
next
  case (Cons item items)
  have step: "check_item fromNow now (content, needNotify) item =
      (content @ map (entry fromNow now) (filter (reportable now) [item]),
       needNotify \<or> daysUntilExpiry (snd item) now \<le> 14)"
    by (cases item) (simp add: Let_def reportable_def entry_def)
  show ?case
    unfolding foldl_Cons step Cons.IH by auto
qed

lemma check_items_eq:
  "check_items fromNow now items =
     (map (entry fromNow now) (filter (reportable now) (sort_key snd items)),
      \<exists>item \<in> set items. daysUntilExpiry (snd item) now \<le> 14)"
  by (simp add: check_items_def foldl_check_item)

lemma entry_fun:
  "entry fromNow now =
     (\<lambda>(host, expireAt).
        (host,
         if daysUntilExpiry expireAt now < 0 then expired_text
         else fromNow expireAt @ expire_suffix))"
  by (auto simp: entry_def fun_eq_iff)

lemma reportable_fun:
  "reportable now = (\<lambda>(host, expireAt). daysUntilExpiry expireAt now < 30)"
  by (auto simp: reportable_def fun_eq_iff)

lemma sorted_reportable:
  "sorted (map snd (filter (reportable now) (sort_key snd items)))"
  using sorted_filter [of snd "sort_key snd items" "reportable now"] by simp

lemma convertToHTMLList_loop_eq:
  "convertToHTMLList_loop htmlString list =
     htmlString
       @ concat (map (\<lambda>item. str ''<li><strong>'' @ fst item @ str ''</strong>: '' @ snd item
                        @ str ''</li>'') list)"
  by (induction list arbitrary: htmlString) simp_all

subsection \<open>The probes of a run\<close>

lemma Promise_all_Inr: "Promise_all ps = Inr vs \<longleftrightarrow> ps = map Inr vs"
proof (induction ps arbitrary: vs)
  case Nil
  show ?case by auto
next
  case (Cons p ps)
  show ?case
  proof (cases p)
    case (Inl e)
    then show ?thesis by auto
  next
    case (Inr v)
    show ?thesis
    proof (cases "Promise_all ps")
      case (Inl e)
      have "ps \<noteq> map Inr us" for us
        using Cons.IH [of us] Inl by simp
      with Inl Inr show ?thesis by (cases vs) auto
    next
      case (Inr ws)
      have "ps = map Inr ws"
        using Cons.IH [of ws] Inr by simp
      with Inr \<open>p = Inr v\<close> show ?thesis by (cases vs) auto
    qed
  qed
qed

lemma Promise_all_Inl: "(\<exists>e. Promise_all ps = Inl e) \<longleftrightarrow> (\<exists>e. Inl e \<in> set ps)"
  by (induction ps) (auto split: sum.splits)

lemma probeAll_mem:
  assumes "probeAll net hosts = Inr items" and "host \<in> set hosts"
    and "getExpireTime net host = Inr t"
  shows "(host, t) \<in> set items"
proof -
  have "map (probe net) hosts = map Inr items"
    using assms(1) by (simp add: probeAll_def Promise_all_Inr)
  moreover have "probe net host = Inr (host, t)"
    using assms(3) by (simp add: probe_def)
  ultimately have "Inr (host, t) \<in> set (map Inr items :: (error + jsstring \<times> int) list)"
    using assms(2) by (metis image_eqI set_map)
  then show ?thesis by auto
qed

lemma mails_checkAll:
  "mails (checkAll net fromNow mailer hosts now) =
     (case probeAll net hosts of
        Inl e \<Rightarrow> []
      | Inr items \<Rightarrow>
          if snd (check_items fromNow now items) then
            [(subject (length (fst (check_items fromNow now items))),
              convertToHTMLList (fst (check_items fromNow now items)))]
          else [])"
  by (simp add: checkAll_def sendMailToMe_def split: sum.splits prod.splits)

subsection \<open>Splitting and parsing\<close>

lemma split_no_sep: "sep \<notin> set s \<Longrightarrow> split sep s = [s]"
  by (induction s) auto

lemma split_append: "sep \<notin> set h \<Longrightarrow> split sep (h @ sep # p) = h # split sep p"
  by (induction h) auto

lemma length_split: "length (split sep s) = Suc (count_list s sep)"
  by (induction s) (auto split: list.splits)

lemma count_one_decomp:
  "count_list s sep = Suc 0 \<Longrightarrow> \<exists>h p. s = h @ sep # p \<and> sep \<notin> set h \<and> sep \<notin> set p"
proof (induction s)
  case Nil
  then show ?case by simp
next
  case (Cons c s)
  show ?case
  proof (cases "c = sep")
    case True
    with Cons.prems have "count_list s sep = 0" by simp
    then have "sep \<notin> set s" by (simp add: count_list_0_iff)
    with True show ?thesis by (intro exI [of _ "[]"] exI [of _ s]) simp
  next
    case False
    with Cons.prems have "count_list s sep = Suc 0" by simp
    from Cons.IH [OF this] obtain h p where "s = h @ sep # p" "sep \<notin> set h" "sep \<notin> set p"
      by blast
    with False show ?thesis by (intro exI [of _ "c # h"] exI [of _ p]) simp
  qed
qed

lemma target_many:
  assumes "1 < count_list raw 0x3A"
  shows "tslConnect_target raw = Inl (Error (str ''invalid host: '' @ raw))"
proof -
  have "0x3A \<in> set raw"
    using assms count_list_0_iff [of raw "0x3A"] by force
  moreover have "2 < length (split 0x3A raw)"
    using assms by (simp add: length_split)
  ultimately show ?thesis
    by (auto simp: tslConnect_target_def split: list.splits)
qed

lemma target_one:
  assumes "0x3A \<notin> set h" "0x3A \<notin> set p"
  shows "tslConnect_target (h @ 0x3A # p) =
     (case parseInt p of
        None \<Rightarrow> Inl (Error (str ''invalid host: '' @ h))
      | Some n \<Rightarrow> Inr (h, n))"
  using assms by (simp add: tslConnect_target_def split_append split_no_sep)

lemma digit_not_space: "0x30 \<le> c \<Longrightarrow> c \<le> 0x39 \<Longrightarrow> \<not> isWhiteSpace c"
  by (auto simp: isWhiteSpace_def word_le_nat_alt)

lemma digit_radix10: "0x30 \<le> c \<Longrightarrow> c \<le> 0x39 \<Longrightarrow> radixDigit 10 c = Some (unat c - 0x30)"
  by (auto simp: radixDigit_def digitValue_def word_le_nat_alt)

lemma bit_length_le: "n < 2 ^ k \<Longrightarrow> bit_length n \<le> k"
proof (induction k arbitrary: n)
  case 0
  then show ?case by (simp add: bit_length.simps)
next
  case (Suc k)
  have "n div 2 < 2 ^ k"
    using Suc.prems by simp
  then have "bit_length (n div 2) \<le> k"
    by (rule Suc.IH)
  then show ?case
    by (subst bit_length.simps) simp
qed

lemma roundToDouble_small:
  assumes "m < 2 ^ 53"
  shows "roundToDouble m = Some m"
proof -
  have e: "bit_length m - 53 = 0"
    using bit_length_le [OF assms] by simp
  have "m < 2 ^ 1024"
    using assms by (rule less_le_trans) simp
  then show ?thesis
    unfolding roundToDouble_def e by (simp add: Let_def)
qed

lemma parseInt_digits:
  assumes "port \<noteq> []" and "\<forall>c \<in> set port. 0x30 \<le> c \<and> c \<le> 0x39"
  shows "parseInt port = Some (toNumber 1 (radixValue 10 port))"
proof -
  obtain a S where port: "port = a # S"
    using assms(1) by (cases port) auto
  have a: "0x30 \<le> a" "a \<le> 0x39"
    using assms(2) port by auto
  have ws: "dropWhile isWhiteSpace port = port"
    using a port by (simp add: digit_not_space)
  have sign: "stripSign port = (1, port)"
    using a port by auto
  have pre: "stripPrefix port = (10, port)"
  proof (cases S)
    case Nil
    with port show ?thesis by simp
  next
    case (Cons b S')
    with assms(2) port have "0x30 \<le> b" "b \<le> 0x39" by auto
    then have "b \<noteq> 0x78" "b \<noteq> 0x58" by auto
    with Cons port show ?thesis by simp
  qed
  have Z: "takeWhile (\<lambda>c. radixDigit 10 c \<noteq> None) port = port"
    using assms(2) by (auto simp: takeWhile_eq_all_conv digit_radix10)
  show ?thesis
    unfolding parseInt_def ws sign pre prod.case Z Let_def using assms(1) by simp
qed

subsection \<open>Decimal digits\<close>

lemma radixValue_snoc:
  "radixValue R (Z @ [c]) = radixValue R Z * R + the (radixDigit R c)"
  by (simp add: radixValue_def)

lemma digit_of_nat:
  assumes "d < 10"
  shows "radixDigit 10 (of_nat (0x30 + d)) = Some d"
proof -
  have u: "unat (of_nat (0x30 + d) :: 16 word) = 0x30 + d"
    using assms by (simp only: unat_of_nat) simp
  show ?thesis
    using assms unfolding radixDigit_def digitValue_def word_le_nat_alt u by simp
qed

lemma decimal_value: "radixValue 10 (decimal n) = n"
proof (induction n rule: decimal.induct)
  case (1 n)
  show ?case
  proof (cases "n < 10")
    case True
    have "decimal n = [of_nat (0x30 + n)]"
      by (subst decimal.simps) (simp only: True if_True)
    moreover have "radixValue 10 [of_nat (0x30 + n)] = the (radixDigit 10 (of_nat (0x30 + n)))"
      unfolding radixValue_def foldl.simps by simp
    ultimately show ?thesis
      by (simp only: digit_of_nat [OF True] option.sel)
  next
    case False
    have IH: "radixValue 10 (decimal (n div 10)) = n div 10"
      using "1" False by simp
    have m: "n mod 10 < 10" by simp
    have "decimal n = decimal (n div 10) @ [of_nat (0x30 + n mod 10)]"
      by (subst decimal.simps) (simp only: False if_False)
    then have "radixValue 10 (decimal n) = n div 10 * 10 + n mod 10"
      by (simp only: radixValue_snoc IH digit_of_nat [OF m] option.sel)
    then show ?thesis by simp
  qed
qed

section \<open>Classification of one host\<close>

text \<open>
  C1, as the program has it. For a host whose probe gave the expiry instant \<open>e\<close>, with
  \<open>daysUntilExpiry e now\<close> the rounded number of days from \<open>now\<close> to \<open>e\<close>: when it is
  negative the loop appends the host with the fixed "already expired" marker (tier
  EXPIRED); when it is at least 0 and below 30 the loop appends the host with a
  relative-time phrase and the suffix (tier URGENT_OR_SOON), and the phrase is the one
  the formatter renders for \<open>e\<close> from the clock reading it takes itself when the loop
  runs, whatever \<open>now\<close> is; when it is 30 or more the loop appends nothing (tier OK,
  excluded from the report). So in the report of a run every item of the first two tiers
  has its entry, and the report has exactly as many entries as there are items below 30
  days. Here \<open>format\<close> is any formatter and \<open>clock\<close> the reading it measures from.
\<close>

theorem classification_tiers:
  "(daysUntilExpiry e now < 0 \<longrightarrow>
      fst (check_item (format clock) now (content, needNotify) (host, e))
        = content @ [(host, expired_text)])
   \<and> (0 \<le> daysUntilExpiry e now \<and> daysUntilExpiry e now < 30 \<longrightarrow>
      fst (check_item (format clock) now (content, needNotify) (host, e))
        = content @ [(host, format clock e @ expire_suffix)])
   \<and> (30 \<le> daysUntilExpiry e now \<longrightarrow>
      fst (check_item (format clock) now (content, needNotify) (host, e)) = content)
   \<and> ((host, e) \<in> set items \<and> daysUntilExpiry e now < 0 \<longrightarrow>
      (host, expired_text) \<in> set (fst (check_items (format clock) now items)))
   \<and> ((host, e) \<in> set items \<and> 0 \<le> daysUntilExpiry e now \<and> daysUntilExpiry e now < 30 \<longrightarrow>
      (host, format clock e @ expire_suffix) \<in> set (fst (check_items (format clock) now items)))
   \<and> length (fst (check_items (format clock) now items))
       = length (filter (\<lambda>item. daysUntilExpiry (snd item) now < 30) items)"
proof -
  have step: "(daysUntilExpiry e now < 0 \<longrightarrow>
      fst (check_item (format clock) now (content, needNotify) (host, e))
        = content @ [(host, expired_text)])
   \<and> (0 \<le> daysUntilExpiry e now \<and> daysUntilExpiry e now < 30 \<longrightarrow>
      fst (check_item (format clock) now (content, needNotify) (host, e))
        = content @ [(host, format clock e @ expire_suffix)])
   \<and> (30 \<le> daysUntilExpiry e now \<longrightarrow>
      fst (check_item (format clock) now (content, needNotify) (host, e)) = content)"
    by (simp add: Let_def)
  have mem: "entry (format clock) now (host, e) \<in> set (fst (check_items (format clock) now items))"
    if "(host, e) \<in> set items" "daysUntilExpiry e now < 30"
    using that by (simp add: check_items_eq reportable_def)
  have len: "length (fst (check_items (format clock) now items))
       = length (filter (\<lambda>item. daysUntilExpiry (snd item) now < 30) items)"
    by (simp add: check_items_eq reportable_fun filter_sort case_prod_unfold)
  show ?thesis
    using step mem len by (auto simp: entry_def)
qed

theorem classification_tiers_witness:
  "fst (check_item (fromNow_at 1) 0 ([], False) (str ''a.example'', - 432000000))
     = [(str ''a.example'', expired_text)]
   \<and> fst (check_item (fromNow_at 1) 0 ([], False) (str ''b.example'', 432000000))
     = [(str ''b.example'', fromNow_at 1 432000000 @ expire_suffix)]
   \<and> fst (check_item (fromNow_at 1) 0 ([], False) (str ''c.example'', 3888000000)) = []
   \<and> (str ''a.example'', expired_text)
       \<in> set (fst (check_items (fromNow_at 1) 0
            [(str ''a.example'', - 432000000), (str ''b.example'', 432000000),
             (str ''c.example'', 3888000000)]))
   \<and> (str ''b.example'', fromNow_at 1 432000000 @ expire_suffix)
       \<in> set (fst (check_items (fromNow_at 1) 0
            [(str ''a.example'', - 432000000), (str ''b.example'', 432000000),
             (str ''c.example'', 3888000000)]))
   \<and> length (fst (check_items (fromNow_at 1) 0
            [(str ''a.example'', - 432000000), (str ''b.example'', 432000000),
             (str ''c.example'', 3888000000)])) = 2"
  using
    classification_tiers [where e = "- 432000000" and now = 0 and format = fromNow_at
      and clock = 1 and content = "[]" and needNotify = False and host = "str ''a.example''"
      and items = "[(str ''a.example'', - 432000000), (str ''b.example'', 432000000),
             (str ''c.example'', 3888000000)]"]
    classification_tiers [where e = 432000000 and now = 0 and format = fromNow_at
      and clock = 1 and content = "[]" and needNotify = False and host = "str ''b.example''"
      and items = "[(str ''a.example'', - 432000000), (str ''b.example'', 432000000),
             (str ''c.example'', 3888000000)]"]
    classification_tiers [where e = 3888000000 and now = 0 and format = fromNow_at
      and clock = 1 and content = "[]" and needNotify = False and host = "str ''c.example''"
      and items = "[(str ''a.example'', - 432000000), (str ''b.example'', 432000000),
             (str ''c.example'', 3888000000)]"]
  by (simp add: daysUntilExpiry_div)

text \<open>
  The claim as the specification words it, a phrase rendered from \<open>e\<close> relative to
  \<open>now\<close>, does not hold: \<open>now\<close> is read before the probes are awaited and the formatter
  reads the clock after them. With four days and a half left at \<open>now = 0\<close> the host is
  five days from expiry, and a formatter that reads the clock one millisecond later
  renders four days, where the phrase relative to \<open>now\<close> says five.
\<close>

theorem phrase_clock_counterexample:
  "daysUntilExpiry 388800000 0 = 5
   \<and> fst (check_item (fromNow_at 1) 0 ([], False) (str ''a.example'', 388800000))
       = [(str ''a.example'', str ''in 4 days'' @ expire_suffix)]
   \<and> fromNow_at 0 388800000 @ expire_suffix = str ''in 5 days'' @ expire_suffix
   \<and> fst (check_item (fromNow_at 1) 0 ([], False) (str ''a.example'', 388800000))
       \<noteq> [(str ''a.example'', fromNow_at 0 388800000 @ expire_suffix)]"
  by (simp add: daysUntilExpiry_div fromNow_at_def decimal.simps [of 4] decimal.simps [of 5]
      str_simps)

section \<open>The notify decision\<close>

text \<open>
  C2. For any list of probed items, the final \<^verbatim>\<open>needNotify\<close> of the loop is the
  disjunction over the items of \<open>daysUntilExpiry \<le> 14\<close>. Every item that contributes
  true has its host in the reportable sequence, and an item with
  \<open>14 < daysUntilExpiry < 30\<close> has its host there without contributing true.
\<close>

theorem needNotify_is_or:
  "snd (check_items fromNow now items)
     = (\<exists>item \<in> set items. daysUntilExpiry (snd item) now \<le> 14)
   \<and> (\<forall>item \<in> set items. daysUntilExpiry (snd item) now \<le> 14 \<longrightarrow>
         fst item \<in> fst ` set (fst (check_items fromNow now items)))
   \<and> (\<forall>item \<in> set items.
         14 < daysUntilExpiry (snd item) now \<and> daysUntilExpiry (snd item) now < 30 \<longrightarrow>
         fst item \<in> fst ` set (fst (check_items fromNow now items))
         \<and> \<not> daysUntilExpiry (snd item) now \<le> 14)"
proof -
  have hosts: "fst ` set (fst (check_items fromNow now items))
      = fst ` {item \<in> set items. reportable now item}"
    by (simp add: check_items_eq entry_def image_image)
  show ?thesis
    unfolding hosts by (auto simp: check_items_eq reportable_def)
qed

theorem needNotify_is_or_witness:
  "snd (check_items fromNow_sample 0
      [(str ''a'', 1728000000), (str ''b'', 864000000), (str ''c'', 3888000000)])
   \<and> str ''b'' \<in> fst ` set (fst (check_items fromNow_sample 0
      [(str ''a'', 1728000000), (str ''b'', 864000000), (str ''c'', 3888000000)]))
   \<and> str ''a'' \<in> fst ` set (fst (check_items fromNow_sample 0
      [(str ''a'', 1728000000), (str ''b'', 864000000), (str ''c'', 3888000000)]))
   \<and> \<not> daysUntilExpiry 1728000000 0 \<le> 14
   \<and> \<not> snd (check_items fromNow_sample 0 [(str ''a'', 1728000000), (str ''c'', 3888000000)])"
  using needNotify_is_or [of fromNow_sample 0
      "[(str ''a'', 1728000000), (str ''b'', 864000000), (str ''c'', 3888000000)]"]
    needNotify_is_or [of fromNow_sample 0 "[(str ''a'', 1728000000), (str ''c'', 3888000000)]"]
  by (simp add: daysUntilExpiry_div)

section \<open>Host strings\<close>

text \<open>
  C3, as the program has it. A raw host string without a colon gives the string itself
  and port 443. A string with exactly one colon is split at it into host name and port
  substring, and the outcome is decided by \<^verbatim>\<open>parseInt\<close> of the port substring: the
  invalid-host error (whose message carries the host name) exactly when \<^verbatim>\<open>parseInt\<close>
  gives \<^verbatim>\<open>NaN\<close>, the parsed number as port otherwise. A string with more than one
  colon gives the invalid-host error. Every non-empty string of decimal digits parses: to
  its base-10 value when that is below \<open>2 ^ 53\<close>, and in general to that value rounded
  to a double.
\<close>

theorem host_string_parse:
  "(0x3A \<notin> set raw \<longrightarrow> tslConnect_target raw = Inr (raw, Finite 443))
   \<and> (count_list raw 0x3A = 1 \<longrightarrow>
        (\<exists>hostname portString.
           raw = hostname @ 0x3A # portString
           \<and> 0x3A \<notin> set hostname \<and> 0x3A \<notin> set portString
           \<and> tslConnect_target raw =
               (case parseInt portString of
                  None \<Rightarrow> Inl (Error (str ''invalid host: '' @ hostname))
                | Some port \<Rightarrow> Inr (hostname, port))))
   \<and> (1 < count_list raw 0x3A \<longrightarrow>
        tslConnect_target raw = Inl (Error (str ''invalid host: '' @ raw)))
   \<and> (digits \<noteq> [] \<and> (\<forall>c \<in> set digits. 0x30 \<le> c \<and> c \<le> 0x39) \<longrightarrow>
        parseInt digits = Some (toNumber 1 (radixValue 10 digits))
        \<and> (radixValue 10 digits < 2 ^ 53 \<longrightarrow>
             parseInt digits = Some (Finite (int (radixValue 10 digits)))))"
proof (intro conjI impI)
  assume "0x3A \<notin> set raw"
  then show "tslConnect_target raw = Inr (raw, Finite 443)"
    by (simp add: tslConnect_target_def)
next
  assume "count_list raw 0x3A = 1"
  then obtain h p where "raw = h @ 0x3A # p" "0x3A \<notin> set h" "0x3A \<notin> set p"
    using count_one_decomp [of raw "0x3A"] by auto
  then show "\<exists>hostname portString.
           raw = hostname @ 0x3A # portString
           \<and> 0x3A \<notin> set hostname \<and> 0x3A \<notin> set portString
           \<and> tslConnect_target raw =
               (case parseInt portString of
                  None \<Rightarrow> Inl (Error (str ''invalid host: '' @ hostname))
                | Some port \<Rightarrow> Inr (hostname, port))"
    using target_one [of h p] by blast
next
  assume "1 < count_list raw 0x3A"
  then show "tslConnect_target raw = Inl (Error (str ''invalid host: '' @ raw))"
    by (rule target_many)
next
  assume "digits \<noteq> [] \<and> (\<forall>c \<in> set digits. 0x30 \<le> c \<and> c \<le> 0x39)"
  then show "parseInt digits = Some (toNumber 1 (radixValue 10 digits))"
    using parseInt_digits by blast
next
  assume "digits \<noteq> [] \<and> (\<forall>c \<in> set digits. 0x30 \<le> c \<and> c \<le> 0x39)"
    and "radixValue 10 digits < 2 ^ 53"
  then show "parseInt digits = Some (Finite (int (radixValue 10 digits)))"
    using parseInt_digits [of digits] by (simp add: toNumber_def roundToDouble_small)
qed

theorem host_string_parse_witness:
  "tslConnect_target (str ''example.com'') = Inr (str ''example.com'', Finite 443)
   \<and> tslConnect_target (str ''example.com:8443'') = Inr (str ''example.com'', Finite 8443)
   \<and> tslConnect_target (str ''example.com:abc'')
       = Inl (Error (str ''invalid host: example.com''))
   \<and> tslConnect_target (str ''a:b:c'') = Inl (Error (str ''invalid host: a:b:c''))
   \<and> parseInt (str ''8443'') = Some (Finite 8443)
   \<and> parseInt (str ''9007199254740993'') = Some (Finite 9007199254740992)"
proof -
  have small: "roundToDouble 8443 = Some 8443"
    by (rule roundToDouble_small) simp
  have len: "bit_length 9007199254740993 = 54"
    by (simp add: bit_length.simps)
  have big: "roundToDouble 9007199254740993 = Some 9007199254740992"
    unfolding roundToDouble_def len by (simp add: Let_def)
  show ?thesis
    using host_string_parse [of "str ''example.com''" "str ''8443''"]
      host_string_parse [of "str ''example.com:8443''" "str ''8443''"]
      host_string_parse [of "str ''example.com:abc''" "str ''8443''"]
      host_string_parse [of "str ''a:b:c''" "str ''9007199254740993''"]
    by (simp add: eval_parse small big str_simps)
qed

text \<open>
  The claim as the specification words it, that the parse fails unless the port substring
  is a base-10 integer, does not hold: \<^verbatim>\<open>parseInt\<close> reads \<^verbatim>\<open>0x1F\<close> as the hexadecimal
  numeral for 31, so \<^verbatim>\<open>example.com:0x1F\<close> is accepted with port 31.
\<close>

theorem hex_port_counterexample:
  "count_list (str ''example.com:0x1F'') 0x3A = 1
   \<and> \<not> is_base10_integer (str ''0x1F'')
   \<and> tslConnect_target (str ''example.com:0x1F'') = Inr (str ''example.com'', Finite 31)"
proof -
  have small: "roundToDouble 31 = Some 31"
    by (rule roundToDouble_small) simp
  show ?thesis
    by (simp add: eval_parse small is_base10_integer_def str_simps)
qed

section \<open>The expired-certificate sentinel\<close>

text \<open>
  C4, as the program has it. When the connection fails with the message
  \<^verbatim>\<open>certificate has expired\<close>, \<^verbatim>\<open>getExpireTime\<close> returns the time value 0, the start
  of the epoch, instead of an error. With that expiry the host is classified EXPIRED for
  every \<open>now\<close> more than half a day (43,200,000 ms) after the epoch, and it contributes
  true to \<^verbatim>\<open>needNotify\<close> for every \<open>now\<close> after the epoch, in the loop step and in the
  whole run.
\<close>

theorem expired_certificate_sentinel:
  assumes "tslConnect net host = Inl e"
    and "message e = str ''certificate has expired''"
  shows "getExpireTime net host = Inr 0
    \<and> (43200000 < now \<longrightarrow>
          daysUntilExpiry 0 now < 0
          \<and> fst (check_item fromNow now (content, needNotify) (host, 0))
              = content @ [(host, expired_text)])
    \<and> (0 < now \<longrightarrow> snd (check_item fromNow now (content, needNotify) (host, 0)))
    \<and> (0 < now \<and> host \<in> set hosts \<and> probeAll net hosts = Inr items \<longrightarrow>
          snd (check_items fromNow now items))"
proof -
  have t: "getExpireTime net host = Inr 0"
    using assms by (simp add: getExpireTime_def)
  have neg: "daysUntilExpiry 0 now < 0" if "43200000 < now"
    using that by (simp add: days_neg_iff)
  have le: "daysUntilExpiry 0 now \<le> 14" if "0 < now"
    using that by (simp add: days_le_14_iff)
  have run: "snd (check_items fromNow now items)"
    if "0 < now" "host \<in> set hosts" "probeAll net hosts = Inr items"
  proof -
    have "(host, 0) \<in> set items"
      using that t by (simp add: probeAll_mem)
    with le [OF that(1)] show ?thesis
      unfolding check_items_eq snd_conv by (intro bexI [of _ "(host, 0)"]) simp_all
  qed
  show ?thesis
    using t neg le run by (simp add: Let_def)
qed

theorem expired_certificate_sentinel_witness:
  "getExpireTime net_expired (str ''old.example'') = Inr 0
   \<and> daysUntilExpiry 0 1700000000000 < 0
   \<and> fst (check_item fromNow_sample 1700000000000 ([], False) (str ''old.example'', 0))
       = [(str ''old.example'', expired_text)]
   \<and> snd (check_item fromNow_sample 1700000000000 ([], False) (str ''old.example'', 0))
   \<and> snd (check_items fromNow_sample 1700000000000 [(str ''old.example'', 0)])"
proof -
  have c: "tslConnect net_expired (str ''old.example'')
      = Inl (Error (str ''certificate has expired''))"
    by (simp add: tslConnect_def tslConnect_target_def net_expired_def str_simps)
  have m: "message (Error (str ''certificate has expired'')) = str ''certificate has expired''"
    by simp
  have p: "probeAll net_expired [str ''old.example''] = Inr [(str ''old.example'', 0)]"
    by (simp add: probeAll_def probe_def getExpireTime_def c)
  show ?thesis
    using expired_certificate_sentinel [OF c m, of 1700000000000 fromNow_sample "[]" False
        "[str ''old.example'']" "[(str ''old.example'', 0)]"] p
    by (simp add: daysUntilExpiry_div check_items_eq)
qed

text \<open>
  The claim as the specification words it, for every \<open>now\<close> after the epoch, does not
  hold in the first half day: one millisecond after the epoch the sentinel is zero days
  away, and the loop appends the relative-time phrase, not the expired marker.
\<close>

theorem sentinel_near_epoch_counterexample:
  "getExpireTime net_expired (str ''old.example'') = Inr 0
   \<and> (0 :: int) < 1
   \<and> daysUntilExpiry 0 1 = 0
   \<and> fst (check_item fromNow_sample 1 ([], False) (str ''old.example'', 0))
       = [(str ''old.example'', fromNow_sample 0 @ expire_suffix)]
   \<and> fst (check_item fromNow_sample 1 ([], False) (str ''old.example'', 0))
       \<noteq> [(str ''old.example'', expired_text)]"
  by (simp add: getExpireTime_def tslConnect_def tslConnect_target_def net_expired_def
      daysUntilExpiry_div fromNow_sample_def expire_suffix_def expired_text_def str_simps)

section \<open>Order of the report\<close>

text \<open>
  C5. The loop runs over all probed items sorted ascending by expiry: the sort keeps
  every item (same length, same elements), is stable (items with equal expiry keep their
  order), and comes before the filtering. The reportable sequence is the sorted list
  with the items of 30 days or more left out, so it is ascending by expiry too. For
  three hosts with day offsets 100, -1 and 10 it is the host at -1 with the expired
  marker, then the host at 10 with its relative-time phrase.
\<close>

theorem sorted_before_filtering:
  "sorted (map snd (sort_key snd items))
   \<and> length (sort_key snd items) = length items
   \<and> set (sort_key snd items) = set items
   \<and> (\<forall>k. filter (\<lambda>item. snd item = k) (sort_key snd items)
           = filter (\<lambda>item. snd item = k) items)
   \<and> fst (check_items fromNow now items)
       = map (entry fromNow now) (filter (reportable now) (sort_key snd items))
   \<and> sorted (map snd (filter (reportable now) (sort_key snd items)))
   \<and> fst (check_items fromNow now [(a, now + 100 * DAY), (b, now - DAY), (c, now + 10 * DAY)])
       = [(b, expired_text), (c, fromNow (now + 10 * DAY) @ expire_suffix)]"
proof -
  have ex: "sort_key snd [(a, now + 100 * DAY), (b, now - DAY), (c, now + 10 * DAY)]
      = [(b, now - DAY), (c, now + 10 * DAY), (a, now + 100 * DAY)]"
    by (simp add: DAY_eq)
  have d: "daysUntilExpiry (now - DAY) now = - 1"
    using days_offset [of now "- 1"] by simp
  show ?thesis
    unfolding check_items_eq ex
    by (simp add: sort_key_stable sorted_reportable reportable_def entry_def days_offset d)
qed

section \<open>A failing probe\<close>

text \<open>
  C6. When the connection to one of the hosts fails with an error whose message is not
  \<^verbatim>\<open>certificate has expired\<close>, the probes of the run fail as a whole, whatever the
  other hosts answer: the loop is never reached, so no report is built, no mail is handed
  to the transport, and the run ends with an error.
\<close>

theorem failing_probe_aborts_run:
  assumes "host \<in> set hosts"
    and "tslConnect net host = Inl e"
    and "message e \<noteq> str ''certificate has expired''"
  shows "\<exists>e'. probeAll net hosts = Inl e'
           \<and> checkAll net fromNow mailer hosts now = \<lparr>mails = [], outcome = Inl e'\<rparr>"
proof -
  have "probe net host = Inl e"
    using assms(2,3) by (simp add: probe_def getExpireTime_def)
  with assms(1) have "Inl e \<in> set (map (probe net) hosts)"
    by force
  then obtain e' where "probeAll net hosts = Inl e'"
    unfolding probeAll_def using Promise_all_Inl by blast
  then show ?thesis
    by (simp add: checkAll_def)
qed

theorem failing_probe_aborts_run_witness:
  "\<exists>e'. probeAll net_one_down [str ''up.example'', str ''down.example''] = Inl e'
        \<and> checkAll net_one_down fromNow_sample mailer_sample
            [str ''up.example'', str ''down.example''] 1700000000000
          = \<lparr>mails = [], outcome = Inl e'\<rparr>"
proof -
  have m: "str ''down.example'' \<in> set [str ''up.example'', str ''down.example'']"
    by simp
  have c: "tslConnect net_one_down (str ''down.example'')
      = Inl (Error (str ''connect ECONNREFUSED''))"
    by (simp add: tslConnect_def tslConnect_target_def net_one_down_def str_simps)
  have n: "message (Error (str ''connect ECONNREFUSED'')) \<noteq> str ''certificate has expired''"
    by (simp add: str_simps)
  show ?thesis
    using failing_probe_aborts_run [OF m c n] by simp
qed

section \<open>Rounding to days\<close>

text \<open>
  C7, as the program has it. \<open>daysUntilExpiry e now\<close> is the integer nearest to
  \<open>(e - now) / DAY\<close>, and a half-day tie goes to the integer above, towards plus
  infinity, for negative differences as for positive ones: it is the one \<open>k\<close> with
  \<open>k - 1/2 \<le> (e - now) / DAY < k + 1/2\<close>, and \<open>k\<close> days and a half give \<open>k + 1\<close>.
\<close>

theorem daysUntilExpiry_nearest_ties_up:
  "(daysUntilExpiry e now = k \<longleftrightarrow>
      rat_of_int k - 1 / 2 \<le> rat_of_int (e - now) / rat_of_int DAY
      \<and> rat_of_int (e - now) / rat_of_int DAY < rat_of_int k + 1 / 2)
   \<and> daysUntilExpiry (now + k * DAY + DAY div 2) now = k + 1"
proof -
  have "daysUntilExpiry (now + k * DAY + DAY div 2) now = k + 1"
    unfolding daysUntilExpiry_div DAY_eq by simp
  moreover have "daysUntilExpiry e now = k \<longleftrightarrow>
      rat_of_int k - 1 / 2 \<le> rat_of_int (e - now) / rat_of_int DAY
      \<and> rat_of_int (e - now) / rat_of_int DAY < rat_of_int k + 1 / 2"
    unfolding daysUntilExpiry_def Math_round_def floor_eq_iff by auto
  ultimately show ?thesis by simp
qed

text \<open>
  Neither of the two modes the specification allows is the program's: one day and a half
  before \<open>now\<close> the program counts -1 day, where rounding ties away from zero and
  rounding ties to even both give -2.
\<close>

theorem half_day_tie_counterexample:
  "daysUntilExpiry (- 129600000) 0 = - 1
   \<and> round_ties_away (rat_of_int (- 129600000 - 0) / rat_of_int DAY) = - 2
   \<and> round_ties_even (rat_of_int (- 129600000 - 0) / rat_of_int DAY) = - 2"
proof -
  have q: "rat_of_int (- 129600000 - 0) / rat_of_int DAY = - 3 / 2"
    by (simp add: DAY_eq)
  have f2: "\<lfloor>- (3 / 2) :: rat\<rfloor> = - 2"
    by (simp add: floor_eq_iff)
  show ?thesis
    unfolding q
    by (simp add: daysUntilExpiry_div round_ties_away_def round_ties_even_def f2 Let_def)
qed

section \<open>The mail\<close>

text \<open>
  C8. A run hands at most one mail to the transport, and when it does, its subject is
  an opening bracket, the decimal count of the reportable entries (the digits read back
  as that count), the two code units of the siren sign, a closing bracket and the fixed
  title; its body is \<^verbatim>\<open><ul>\<close>, one \<^verbatim>\<open><li>\<close> element per reportable entry in order,
  with the host name in \<^verbatim>\<open><strong>\<close>, a colon, a space and the entry's text, and
  \<^verbatim>\<open></ul>\<close>. The text of an expired entry is the marker inside a span styled red; the
  text of the others is the relative-time phrase and its suffix.
\<close>

theorem mail_subject_and_body:
  assumes "(subj, html) \<in> set (mails (checkAll net fromNow mailer hosts now))"
  shows "\<exists>items content.
      probeAll net hosts = Inr items
      \<and> content =
          map (\<lambda>(host, expireAt).
                 (host,
                  if daysUntilExpiry expireAt now < 0
                  then str ''<span style=\"color: red;\">'' @ [0x5DF2, 0x8FC7, 0x671F, 0xFF01]
                         @ str ''</span>''
                  else fromNow expireAt @ [0x8FC7, 0x671F]))
            (filter (\<lambda>(host, expireAt). daysUntilExpiry expireAt now < 30) (sort_key snd items))
      \<and> mails (checkAll net fromNow mailer hosts now) = [(subj, html)]
      \<and> subj =
          str ''['' @ decimal (length content) @ [0xD83D, 0xDEA8] @ str ''] SSL ''
            @ [0x8BC1, 0x4E66, 0x5230, 0x671F, 0x68C0, 0x6D4B]
      \<and> radixValue 10 (decimal (length content)) = length content
      \<and> html =
          str ''<ul>''
            @ concat (map (\<lambda>(host, text).
                  str ''<li><strong>'' @ host @ str ''</strong>: '' @ text @ str ''</li>'') content)
            @ str ''</ul>''"
proof -
  obtain items where items: "probeAll net hosts = Inr items"
    using assms by (cases "probeAll net hosts") (auto simp: mails_checkAll)
  define content where "content = fst (check_items fromNow now items)"
  have sent: "mails (checkAll net fromNow mailer hosts now)
      = [(subject (length content), convertToHTMLList content)]"
    using assms items by (auto simp: mails_checkAll content_def split: if_splits)
  have c: "content =
          map (\<lambda>(host, expireAt).
                 (host,
                  if daysUntilExpiry expireAt now < 0
                  then str ''<span style=\"color: red;\">'' @ [0x5DF2, 0x8FC7, 0x671F, 0xFF01]
                         @ str ''</span>''
                  else fromNow expireAt @ [0x8FC7, 0x671F]))
            (filter (\<lambda>(host, expireAt). daysUntilExpiry expireAt now < 30) (sort_key snd items))"
    by (simp only: content_def check_items_eq fst_conv entry_fun reportable_fun
        expired_text_def expire_suffix_def)
  have h: "convertToHTMLList content =
          str ''<ul>''
            @ concat (map (\<lambda>(host, text).
                  str ''<li><strong>'' @ host @ str ''</strong>: '' @ text @ str ''</li>'') content)
            @ str ''</ul>''"
    by (simp add: convertToHTMLList_def convertToHTMLList_loop_eq case_prod_unfold)
  have s: "subj = subject (length content)" "html = convertToHTMLList content"
    using assms sent by auto
  show ?thesis
    using items c sent s h decimal_value [of "length content"]
    by (intro exI [of _ items] exI [of _ content]) (simp add: subject_def)
qed

theorem mail_subject_and_body_witness:
  "mails (checkAll net_one_down fromNow_sample mailer_sample [str ''old.example''] 1700000000000)
   = [(str ''[1'' @ [0xD83D, 0xDEA8] @ str ''] SSL ''
         @ [0x8BC1, 0x4E66, 0x5230, 0x671F, 0x68C0, 0x6D4B],
       str ''<ul><li><strong>old.example</strong>: <span style=\"color: red;\">''
         @ [0x5DF2, 0x8FC7, 0x671F, 0xFF01] @ str ''</span></li></ul>'')]"
proof -
  let ?S = "str ''[1'' @ [0xD83D, 0xDEA8] @ str ''] SSL ''
         @ [0x8BC1, 0x4E66, 0x5230, 0x671F, 0x68C0, 0x6D4B]"
  let ?H = "str ''<ul><li><strong>old.example</strong>: <span style=\"color: red;\">''
         @ [0x5DF2, 0x8FC7, 0x671F, 0xFF01] @ str ''</span></li></ul>''"
  have h: "(?S, ?H) \<in> set (mails (checkAll net_one_down fromNow_sample mailer_sample
       [str ''old.example''] 1700000000000))"
    by (simp add: mails_checkAll probeAll_def probe_def getExpireTime_def tslConnect_def
        tslConnect_target_def net_one_down_def check_items_eq reportable_def entry_def
        daysUntilExpiry_div subject_def decimal.simps [of "Suc 0"] convertToHTMLList_def
        expired_text_def str_simps)
  show ?thesis
    using mail_subject_and_body [OF h] by blast
qed

section \<open>The scheduler's two modes\<close>

text \<open>
  \<^verbatim>\<open>main\<close> starts one run when the flag is the string \<^verbatim>\<open>1\<close>, and for every other
  value, or none, hands the pattern \<^verbatim>\<open>0 10 * * *\<close> and the zone \<^verbatim>\<open>Asia/Shanghai\<close> to the
  scheduler library. When the library fires, in wall-clock time, is outside this model.
\<close>

lemma main_modes:
  "main (Some (str ''1'')) = RunNow
   \<and> (RUN \<noteq> Some (str ''1'') \<longrightarrow>
        main RUN = CronJob (str ''0 10 * * *'') (str ''Asia/Shanghai''))"
  by (simp add: main_def)

section \<open>The empty host list\<close>

text \<open>
  C10. With no host configured a run completes: nothing is probed, the reportable
  sequence is empty, \<^verbatim>\<open>needNotify\<close> stays false and no mail is handed to the transport.
\<close>

theorem empty_hosts_run:
  "probeAll net [] = Inr []
   \<and> check_items fromNow now [] = ([], False)
   \<and> checkAll net fromNow mailer [] now = \<lparr>mails = [], outcome = Inr ()\<rparr>"
  by (simp add: probeAll_def check_items_def checkAll_def)

end
